theory Spec2Isabelle
  imports Main
begin

section \<open>JavaScript values and jQuery class lists\<close>

text \<open>
  The carrier portal's client is three scripts: \<^verbatim>\<open>websocket.js\<close> (class
  \<^verbatim>\<open>TFSTWebSocket\<close>), \<^verbatim>\<open>shipments.js\<close> (class \<^verbatim>\<open>TFSTShipments\<close>) and
  \<^verbatim>\<open>dashboard.js\<close> (class \<^verbatim>\<open>TFSTDashboard\<close>). They keep almost no state of their
  own: what they read and write is the page (table rows, checkboxes, elements appended to
  the body) and the timers they start. The page is modelled as a record, every method as a
  function from page to page, and a JavaScript exception as a value that carries the page as
  it was left when the exception was raised.
\<close>

datatype js_error = TypeError | SyntaxError

type_synonym 'a js_result = "(js_error \<times> 'a) + 'a"

text \<open>The state a call leaves behind, whether it returned or threw.\<close>

fun state_of :: "'a js_result \<Rightarrow> 'a" where
  "state_of (Inl (e, s)) = s"
| "state_of (Inr s) = s"


text \<open>
  A property that may be missing is an \<open>option\<close>. Inside a template literal or a string
  concatenation \<^verbatim>\<open>undefined\<close> prints as the text \<^verbatim>\<open>undefined\<close>; under \<^verbatim>\<open>||\<close> both
  \<^verbatim>\<open>undefined\<close> and the empty string are falsy.
\<close>

fun js_string :: "string option \<Rightarrow> string" where
  "js_string None = ''undefined''"
| "js_string (Some v) = v"

fun js_or :: "string option \<Rightarrow> string \<Rightarrow> string" where
  "js_or None d = d"
| "js_or (Some v) d = (if v = [] then d else v)"

text \<open>\<^verbatim>\<open>String.prototype.toLowerCase\<close> on the ASCII letters.\<close>

definition lower_char :: "char \<Rightarrow> char" where
  "lower_char c =
     (case map_of (zip ''ABCDEFGHIJKLMNOPQRSTUVWXYZ'' ''abcdefghijklmnopqrstuvwxyz'') c of
        None \<Rightarrow> c
      | Some l \<Rightarrow> l)"

definition toLowerCase :: "string \<Rightarrow> string" where
  "toLowerCase v = map lower_char v"

text \<open>\<^verbatim>\<open>v.replace(' ', '-')\<close>: a string pattern replaces the first occurrence only.\<close>

fun replace_first :: "char \<Rightarrow> char \<Rightarrow> string \<Rightarrow> string" where
  "replace_first a b [] = []"
| "replace_first a b (c # cs) = (if c = a then b # cs else c # replace_first a b cs)"

text \<open>
  jQuery reads a class argument as the list of its maximal runs of characters other than
  space, tab, line feed, form feed and carriage return.
\<close>

definition html_space :: "char \<Rightarrow> bool" where
  "html_space c = (c \<in> set [CHR '' '', CHR 0x09, CHR 0x0A, CHR 0x0C, CHR 0x0D])"

fun class_tokens_acc :: "string \<Rightarrow> string \<Rightarrow> string list" where
  "class_tokens_acc cur [] = (if cur = [] then [] else [cur])"
| "class_tokens_acc cur (c # cs) =
     (if html_space c
      then (if cur = [] then class_tokens_acc [] cs else cur # class_tokens_acc [] cs)
      else class_tokens_acc (cur @ [c]) cs)"

definition class_tokens :: "string \<Rightarrow> string list" where
  "class_tokens v = class_tokens_acc [] v"

text \<open>\<^verbatim>\<open>.addClass(v)\<close> appends each class of \<open>v\<close> that the element does not have yet.\<close>

fun add_classes :: "string list \<Rightarrow> string list \<Rightarrow> string list" where
  "add_classes [] cur = cur"
| "add_classes (c # cs) cur = add_classes cs (if c \<in> set cur then cur else cur @ [c])"

definition addClass :: "string \<Rightarrow> string list \<Rightarrow> string list" where
  "addClass v cur = add_classes (class_tokens v) cur"

text \<open>\<^verbatim>\<open>.removeClass(v)\<close> removes the classes of \<open>v\<close>; \<^verbatim>\<open>.removeClass()\<close> removes all.\<close>

definition removeClass :: "string \<Rightarrow> string list \<Rightarrow> string list" where
  "removeClass v cur = filter (\<lambda>c. c \<notin> set (class_tokens v)) cur"

definition removeClass_all :: "string list \<Rightarrow> string list" where
  "removeClass_all cur = []"

text \<open>
  The class string both update handlers build:
  \<^verbatim>\<open>`badge status-badge status-${data.current_status.toLowerCase().replace(' ', '-')}`\<close>.
\<close>

definition status_badge_class :: "string \<Rightarrow> string" where
  "status_badge_class st =
     ''badge status-badge status-'' @ replace_first CHR '' '' CHR ''-'' (toLowerCase st)"


section \<open>The page\<close>

text \<open>
  An element inside a table row (the status badge is one of them), with its class list and
  its text.
\<close>

record elem =
  el_classes :: "string list"
  el_text :: string

text \<open>A table row: its class list, its \<^verbatim>\<open>data-shipment-id\<close> attribute, its descendants.\<close>

record row =
  row_classes :: "string list"
  data_shipment_id :: string
  row_elems :: "elem list"

record checkbox =
  cb_value :: string
  cb_checked :: bool

text \<open>
  The payloads of the inbound events \<^verbatim>\<open>shipment_update\<close> and \<^verbatim>\<open>emergency_alert\<close>.
  A latitude or longitude is a JavaScript number; the scripts pass it on and print it, and
  nothing here depends on its value.
\<close>

typedecl js_number

record shipment_update =
  shipment_id :: string
  current_status :: "string option"

record emergency_alert =
  alert_shipment_id :: string
  alert_message :: string
  alert_location :: "(js_number \<times> js_number) option"

text \<open>
  What the scripts append to the body, in document order: the alert box of
  \<^verbatim>\<open>showNotification\<close> in \<^verbatim>\<open>shipments.js\<close> and \<^verbatim>\<open>dashboard.js\<close> (its alert class,
  whether an icon precedes the message, and the message), the toast of \<^verbatim>\<open>showNotification\<close> in \<^verbatim>\<open>websocket.js\<close> (its type and its
  message) and the emergency modal. The modal's body holds a
  \<^verbatim>\<open><div class="alert alert-danger">\<close> with the alert's text; the flag says whether that
  inner element is still in the document.
\<close>

datatype body_child =
    Alert string bool string
  | Toast string string
  | Modal emergency_alert bool

text \<open>The callbacks given to \<^verbatim>\<open>setTimeout\<close>, each with what its closure captured.\<close>

datatype timer_action =
    RemoveClassFromRows "nat list" string
  | CloseLastAlert

text \<open>The body of the status-update request and its JSON response.\<close>

record status_update =
  su_status :: string
  su_notes :: string
  su_location :: "(js_number \<times> js_number) option"
  su_driver_info :: "string option"

record response =
  success :: bool
  error :: "string option"

datatype ajax_outcome =
    HttpSuccess response
  | HttpError "response option"

text \<open>
  The page as the scripts see it through their selectors, with the one field of
  \<^verbatim>\<open>TFSTShipments\<close> that the claims are about (\<open>selectedShipments\<close>, a JavaScript
  \<^verbatim>\<open>Set\<close>: a list without duplicates in insertion order), the timers that are set
  (due time and callback, in the order of their creation), the clock in milliseconds, the
  requests \<^verbatim>\<open>$.ajax\<close> has sent and that have no response yet, and the number of times the
  page was reloaded. \<open>detail_visible\<close> is \<^verbatim>\<open>$('#shipmentDetailModal').is(':visible')\<close>
  and \<open>detail_shipment_id\<close> the string that \<^verbatim>\<open>.data('shipment-id')\<close> returns for that
  modal.
\<close>

record page =
  selectedShipments :: "string list"
  checkboxes :: "checkbox list"
  selectAll_checked :: bool
  selectAll_indeterminate :: bool
  selectedCount :: nat
  bulkActionsPanel_shown :: bool
  statusUpdateModal_shown :: bool
  shipment_rows :: "row list"
  detail_visible :: bool
  detail_shipment_id :: string
  currentStatus :: string
  lastUpdated :: string
  body :: "body_child list"
  timers :: "(nat \<times> timer_action) list"
  now :: nat
  pending :: "(string \<times> status_update) list"
  reloads :: nat

subsection \<open>Timers\<close>

definition setTimeout :: "timer_action \<Rightarrow> nat \<Rightarrow> page \<Rightarrow> page" where
  "setTimeout f delay s = s\<lparr>timers := timers s @ [(now s + delay, f)]\<rparr>"

text \<open>
  \<^verbatim>\<open>$('.alert').last()\<close>: the last element of class \<^verbatim>\<open>alert\<close> in document order, which
  is an alert box or the inner element of an emergency modal.
\<close>

fun is_alert :: "body_child \<Rightarrow> bool" where
  "is_alert (Alert c icon m) = True"
| "is_alert (Toast t m) = False"
| "is_alert (Modal d inner) = inner"

text \<open>
  \<^verbatim>\<open>.alert('close')\<close> takes the element out of the document. The list is walked from its
  end: the first element of class \<^verbatim>\<open>alert\<close> met is the last one of the document.
\<close>

fun close_first_alert :: "body_child list \<Rightarrow> body_child list" where
  "close_first_alert [] = []"
| "close_first_alert (Alert c icon m # bs) = bs"
| "close_first_alert (Toast t m # bs) = Toast t m # close_first_alert bs"
| "close_first_alert (Modal d inner # bs) =
     (if inner then Modal d False # bs else Modal d inner # close_first_alert bs)"

definition close_last_alert :: "body_child list \<Rightarrow> body_child list" where
  "close_last_alert bs = rev (close_first_alert (rev bs))"

definition remove_class_from_rows :: "nat list \<Rightarrow> string \<Rightarrow> row list \<Rightarrow> row list" where
  "remove_class_from_rows idxs c rs =
     map (\<lambda>(i, r). if i \<in> set idxs then r\<lparr>row_classes := removeClass c (row_classes r)\<rparr> else r)
       (zip [0..<length rs] rs)"

fun fire :: "timer_action \<Rightarrow> page \<Rightarrow> page" where
  "fire (RemoveClassFromRows idxs c) s =
     s\<lparr>shipment_rows := remove_class_from_rows idxs c (shipment_rows s)\<rparr>"
| "fire CloseLastAlert s = s\<lparr>body := close_last_alert (body s)\<rparr>"

text \<open>
  Letting time pass until \<open>t\<close>: the timers due by then run, earliest first and in the order
  of their creation among equals (the sort is stable), and leave the timer list. No
  callback of the scripts starts a timer, so one pass is enough.
\<close>

fun fire_all :: "(nat \<times> timer_action) list \<Rightarrow> page \<Rightarrow> page" where
  "fire_all [] s = s"
| "fire_all ((d, f) # ts) s = fire_all ts (fire f s)"

definition advance :: "nat \<Rightarrow> page \<Rightarrow> page" where
  "advance t s =
     (fire_all (sort_key fst (filter (\<lambda>(d, f). d \<le> t) (timers s)))
        (s\<lparr>timers := filter (\<lambda>(d, f). \<not> d \<le> t) (timers s)\<rparr>))
     \<lparr>now := max t (now s)\<rparr>"

subsection \<open>Notifications\<close>

text \<open>
  \<^verbatim>\<open>showNotification\<close> of \<^verbatim>\<open>shipments.js\<close>: the alert box is appended to the body, and a
  timer closes, 5000 ms later, \<^verbatim>\<open>$('.alert').last()\<close>.
\<close>

definition alertClass :: "string \<Rightarrow> string" where
  "alertClass type = (if type = ''error'' then ''alert-danger'' else ''alert-'' @ type)"

definition showNotification :: "string \<Rightarrow> string \<Rightarrow> page \<Rightarrow> page" where
  "showNotification message type s =
     setTimeout CloseLastAlert 5000 (s\<lparr>body := body s @ [Alert (alertClass type) False message]\<rparr>)"

text \<open>\<^verbatim>\<open>TFSTDashboard.showNotification\<close>: the same, with an icon before the message.\<close>

definition Dashboard_showNotification :: "string \<Rightarrow> string \<Rightarrow> page \<Rightarrow> page" where
  "Dashboard_showNotification message type s =
     setTimeout CloseLastAlert 5000 (s\<lparr>body := body s @ [Alert (alertClass type) True message]\<rparr>)"

text \<open>
  \<^verbatim>\<open>TFSTWebSocket.showNotification\<close>: a Bootstrap toast is appended and shown; the script
  starts no timer for it.
\<close>

definition WebSocket_showNotification :: "string \<Rightarrow> string \<Rightarrow> page \<Rightarrow> page" where
  "WebSocket_showNotification message type s = s\<lparr>body := body s @ [Toast type message]\<rparr>"


section \<open>Selection and bulk actions (\<^verbatim>\<open>shipments.js\<close>)\<close>

text \<open>The methods \<^verbatim>\<open>add\<close>, \<^verbatim>\<open>delete\<close> and \<^verbatim>\<open>size\<close> of a JavaScript \<^verbatim>\<open>Set\<close>.\<close>

definition set_add :: "string \<Rightarrow> string list \<Rightarrow> string list" where
  "set_add v xs = (if v \<in> set xs then xs else xs @ [v])"


definition updateBulkActions :: "page \<Rightarrow> page" where
  "updateBulkActions s =
     (let count = length (selectedShipments s)
      in s\<lparr>selectedCount := count, bulkActionsPanel_shown := (count > 0)\<rparr>)"

text \<open>
  \<^verbatim>\<open>handleSelectAll(e)\<close>, with \<open>checked\<close> the value of \<^verbatim>\<open>e.target.checked\<close>.
\<close>

definition handleSelectAll :: "bool \<Rightarrow> page \<Rightarrow> page" where
  "handleSelectAll checked s =
     (let s1 = s\<lparr>checkboxes := map (\<lambda>c. c\<lparr>cb_checked := checked\<rparr>) (checkboxes s)\<rparr>;
          s2 = (if checked
                then s1\<lparr>selectedShipments :=
                         foldl (\<lambda>sel c. set_add (cb_value c) sel) (selectedShipments s1) (checkboxes s1)\<rparr>
                else s1\<lparr>selectedShipments := []\<rparr>)
      in updateBulkActions s2)"



text \<open>
  \<^verbatim>\<open>refreshData()\<close> is \<^verbatim>\<open>location.reload()\<close>: the document \<open>served\<close> by the server
  replaces the page, timers and requests of the old page are gone, and the script's
  \<^verbatim>\<open>$(document).ready\<close> constructs a new \<^verbatim>\<open>TFSTShipments\<close>, whose constructor sets
  \<^verbatim>\<open>this.selectedShipments = new Set()\<close>.
\<close>

definition TFSTShipments_constructor :: "page \<Rightarrow> page" where
  "TFSTShipments_constructor doc = doc\<lparr>selectedShipments := []\<rparr>"

definition refreshData :: "page \<Rightarrow> page \<Rightarrow> page" where
  "refreshData served s =
     TFSTShipments_constructor
       (served\<lparr>timers := [], pending := [], now := now s, reloads := Suc (reloads s)\<rparr>)"

text \<open>The identifiers rendered in the table: the values of its checkboxes.\<close>

definition rendered_ids :: "page \<Rightarrow> string set" where
  "rendered_ids s = set (map cb_value (checkboxes s))"

section \<open>The status-update request (\<^verbatim>\<open>shipments.js\<close>)\<close>

text \<open>
  \<^verbatim>\<open>updateShipmentStatus(shipmentId, data)\<close> sends the POST and returns; the request is in
  flight until one of its two callbacks runs.
\<close>

definition updateShipmentStatus :: "string \<Rightarrow> status_update \<Rightarrow> page \<Rightarrow> page" where
  "updateShipmentStatus shipmentId data s = s\<lparr>pending := pending s @ [(shipmentId, data)]\<rparr>"


text \<open>The \<^verbatim>\<open>success\<close> callback (the response came with a 2xx status).\<close>

definition on_success :: "page \<Rightarrow> response \<Rightarrow> page \<Rightarrow> page" where
  "on_success served r s =
     (if success r
      then refreshData served
             ((showNotification ''Status updated successfully'' ''success'' s)
                \<lparr>statusUpdateModal_shown := False\<rparr>)
      else showNotification (''Failed to update status: '' @ js_string (error r)) ''error'' s)"

text \<open>
  The \<^verbatim>\<open>error\<close> callback: \<^verbatim>\<open>xhr.responseJSON || {}\<close>, then
  \<^verbatim>\<open>response.error || 'Server error'\<close>.
\<close>

definition on_error :: "response option \<Rightarrow> page \<Rightarrow> page" where
  "on_error responseJSON s =
     (let err = (case responseJSON of None \<Rightarrow> None | Some r \<Rightarrow> error r)
      in showNotification (''Update failed: '' @ js_or err ''Server error'') ''error'' s)"

text \<open>
  The response to the \<open>k\<close>-th request in flight arrives: the request is no longer pending,
  and its callback runs.
\<close>

definition ajax_complete :: "nat \<Rightarrow> ajax_outcome \<Rightarrow> page \<Rightarrow> page \<Rightarrow> page" where
  "ajax_complete k outcome served s =
     (if k < length (pending s)
      then (let s1 = s\<lparr>pending := take k (pending s) @ drop (Suc k) (pending s)\<rparr>
            in case outcome of
                 HttpSuccess r \<Rightarrow> on_success served r s1
               | HttpError rj \<Rightarrow> on_error rj s1)
      else s)"


section \<open>Applying a \<^verbatim>\<open>shipment_update\<close> event\<close>

text \<open>
  Both handlers build their selector by splicing the identifier of the event, as it is,
  into \<^verbatim>\<open>.shipment-row[data-shipment-id="${data.shipment_id}"]\<close>. Which rows jQuery
  selects depends on how the resulting text reads as a selector, so the text is built and
  read here too.
\<close>

definition selector_template :: string where
  "selector_template = ''.shipment-row[data-shipment-id='' @ [CHR 0x22]"

definition selector_for :: "string \<Rightarrow> string" where
  "selector_for sid = selector_template @ sid @ [CHR 0x22, CHR '']'']"

text \<open>
  The reading covers a comma-separated list of selectors of the template's own form,
  class \<^verbatim>\<open>shipment-row\<close> with an attribute value in double quotes. Inside the quotes a
  double quote ends the value, a backslash takes the next character literally, and a line
  break is an error. The result is the list of the attribute values. An identifier without
  these characters gives one selector with the identifier as its value; an identifier that
  closes the quote and the bracket and opens the template again after a comma gives two.
  Every other text is taken as one that jQuery rejects with a syntax error. That is what
  jQuery does when a quote is left unbalanced; a backslash before a hexadecimal digit or a
  line break, and other selector syntax after the closing bracket, are not read by this
  model. What is proved below about the effect of an event on the table is stated for
  identifiers without a double quote, a backslash or a line break, and evaluated at one
  identifier of the second kind.
\<close>

definition line_break :: "char \<Rightarrow> bool" where
  "line_break c = (c \<in> set [CHR 0x0A, CHR 0x0C, CHR 0x0D])"

definition hex_digit :: "char \<Rightarrow> bool" where
  "hex_digit c = (c \<in> set ''0123456789abcdefABCDEF'')"

datatype scan_state =
    In_template string
  | In_value string
  | After_backslash string
  | After_value
  | After_selector

fun scan :: "scan_state \<Rightarrow> string list \<Rightarrow> string \<Rightarrow> string list option" where
  "scan (In_template t) vs [] = None"
| "scan (In_template t) vs (c # cs) =
     (case t of
        [] \<Rightarrow> None
      | x # xs \<Rightarrow>
          if c = x
          then (if xs = [] then scan (In_value []) vs cs else scan (In_template xs) vs cs)
          else None)"
| "scan (In_value v) vs [] = None"
| "scan (In_value v) vs (c # cs) =
     (if c = CHR 0x22 then scan After_value (vs @ [v]) cs
      else if c = CHR 0x5C then scan (After_backslash v) vs cs
      else if line_break c then None
      else scan (In_value (v @ [c])) vs cs)"
| "scan (After_backslash v) vs [] = None"
| "scan (After_backslash v) vs (c # cs) =
     (if hex_digit c \<or> line_break c then None else scan (In_value (v @ [c])) vs cs)"
| "scan After_value vs [] = None"
| "scan After_value vs (c # cs) = (if c = CHR '']'' then scan After_selector vs cs else None)"
| "scan After_selector vs [] = Some vs"
| "scan After_selector vs (c # cs) =
     (if c = CHR '','' then scan (In_template selector_template) vs cs else None)"

definition read_selector :: "string \<Rightarrow> string list option" where
  "read_selector sel = scan (In_template selector_template) [] sel"

text \<open>An identifier that the selector syntax reads as it is written.\<close>

definition plain_char :: "char \<Rightarrow> bool" where
  "plain_char c = (c \<noteq> CHR 0x22 \<and> c \<noteq> CHR 0x5C \<and> \<not> line_break c)"

definition plain_id :: "string \<Rightarrow> bool" where
  "plain_id sid = list_all plain_char sid"

text \<open>
  A row is selected when it has the class and its attribute is one of the values read. The
  selected rows are given by their positions in the table.
\<close>

definition matches_row :: "string list \<Rightarrow> row \<Rightarrow> bool" where
  "matches_row vals r =
     (''shipment-row'' \<in> set (row_classes r) \<and> data_shipment_id r \<in> set vals)"

definition matched_rows :: "string list \<Rightarrow> row list \<Rightarrow> nat list" where
  "matched_rows vals rs = filter (\<lambda>i. matches_row vals (rs ! i)) [0..<length rs]"

text \<open>
  \<^verbatim>\<open>row.find('.status-badge')\<close> is evaluated once; the calls chained on its result act on
  the elements that had the class at that moment.
\<close>

definition is_status_badge :: "elem \<Rightarrow> bool" where
  "is_status_badge e = (''status-badge'' \<in> set (el_classes e))"

definition on_status_badges :: "(elem \<Rightarrow> elem) \<Rightarrow> row \<Rightarrow> row" where
  "on_status_badges f r =
     r\<lparr>row_elems := map (\<lambda>e. if is_status_badge e then f e else e) (row_elems r)\<rparr>"

definition badge_removeClass :: "elem \<Rightarrow> elem" where
  "badge_removeClass e = e\<lparr>el_classes := removeClass_all (el_classes e)\<rparr>"

definition badge_addClass :: "string \<Rightarrow> elem \<Rightarrow> elem" where
  "badge_addClass v e = e\<lparr>el_classes := addClass v (el_classes e)\<rparr>"

definition badge_text :: "string \<Rightarrow> elem \<Rightarrow> elem" where
  "badge_text v e = e\<lparr>el_text := v\<rparr>"

definition row_addClass :: "string \<Rightarrow> row \<Rightarrow> row" where
  "row_addClass v r = r\<lparr>row_classes := addClass v (row_classes r)\<rparr>"

text \<open>
  In \<^verbatim>\<open>statusBadge.removeClass().addClass(`...${data.current_status.toLowerCase()}...`)\<close>
  the call \<^verbatim>\<open>removeClass()\<close> runs before the argument of \<^verbatim>\<open>addClass\<close> is evaluated.
  When \<^verbatim>\<open>current_status\<close> is missing, that evaluation raises a TypeError: the badge has
  lost its classes by then, and the rest of the handler does not run.
\<close>

definition update_badge :: "string \<Rightarrow> elem \<Rightarrow> elem" where
  "update_badge st e = badge_text st (badge_addClass (status_badge_class st) (badge_removeClass e))"

definition on_rows :: "string list \<Rightarrow> (row \<Rightarrow> row) \<Rightarrow> page \<Rightarrow> page" where
  "on_rows vals f s =
     s\<lparr>shipment_rows := map (\<lambda>r. if matches_row vals r then f r else r) (shipment_rows s)\<rparr>"

text \<open>
  \<^verbatim>\<open>TFSTShipments.handleRealtimeUpdate(data)\<close>. The selector is evaluated first; when
  jQuery rejects it nothing else has happened.
\<close>

definition handleRealtimeUpdate :: "shipment_update \<Rightarrow> page \<Rightarrow> page js_result" where
  "handleRealtimeUpdate d s =
     (case read_selector (selector_for (shipment_id d)) of
        None \<Rightarrow> Inl (SyntaxError, s)
      | Some vals \<Rightarrow>
          (let row = matched_rows vals (shipment_rows s)
           in case (if row \<noteq> []
                    then (case current_status d of
                            None \<Rightarrow>
                              Inl (TypeError, on_rows vals (on_status_badges badge_removeClass) s)
                          | Some st \<Rightarrow>
                              Inr (setTimeout (RemoveClassFromRows row ''table-warning'') 3000
                                     (on_rows vals
                                        (\<lambda>r. row_addClass ''table-warning''
                                               (on_status_badges (update_badge st) r)) s)))
                    else Inr s) of
                Inl x \<Rightarrow> Inl x
              | Inr s' \<Rightarrow>
                  Inr (showNotification
                         (shipment_id d @ '' updated: '' @ js_string (current_status d))
                         ''info'' s')))"

text \<open>
  \<^verbatim>\<open>$(document).trigger(name, [data])\<close> calls the handlers registered for the custom event
  one after the other; an exception raised by one of them leaves \<^verbatim>\<open>trigger\<close>. The
  handlers are those of other components of the page; the three scripts register none.
\<close>

fun trigger :: "('d \<Rightarrow> page \<Rightarrow> page js_result) list \<Rightarrow> 'd \<Rightarrow> page \<Rightarrow> page js_result" where
  "trigger [] d s = Inr s"
| "trigger (h # hs) d s = (case h d s of Inl x \<Rightarrow> Inl x | Inr s' \<Rightarrow> trigger hs d s')"

text \<open>
  \<^verbatim>\<open>updateShipmentDisplay(data)\<close>: the callback of \<^verbatim>\<open>.each\<close> runs on the selected rows
  one by one, and starts one timer for each.
\<close>

definition update_row_at :: "nat \<Rightarrow> (row \<Rightarrow> row) \<Rightarrow> page \<Rightarrow> page" where
  "update_row_at i f s = s\<lparr>shipment_rows := (shipment_rows s)[i := f (shipment_rows s ! i)]\<rparr>"

fun each_row :: "shipment_update \<Rightarrow> nat list \<Rightarrow> page \<Rightarrow> page js_result" where
  "each_row d [] s = Inr s"
| "each_row d (i # idxs) s =
     (case current_status d of
        None \<Rightarrow> Inl (TypeError, update_row_at i (on_status_badges badge_removeClass) s)
      | Some st \<Rightarrow>
          each_row d idxs
            (setTimeout (RemoveClassFromRows [i] ''table-info'') 2000
               (update_row_at i
                  (\<lambda>r. row_addClass ''table-info'' (on_status_badges (update_badge st) r)) s)))"

text \<open>
  The detail view: \<^verbatim>\<open>.text(undefined)\<close> sets nothing, so a missing status leaves
  \<^verbatim>\<open>#currentStatus\<close> as it is.
\<close>

definition update_detail :: "shipment_update \<Rightarrow> page \<Rightarrow> page" where
  "update_detail d s =
     (if detail_visible s
      then (if detail_shipment_id s = shipment_id d
            then s\<lparr>currentStatus := (case current_status d of None \<Rightarrow> currentStatus s | Some st \<Rightarrow> st),
                   lastUpdated := ''Just now''\<rparr>
            else s)
      else s)"

definition updateShipmentDisplay :: "shipment_update \<Rightarrow> page \<Rightarrow> page js_result" where
  "updateShipmentDisplay d s =
     (case read_selector (selector_for (shipment_id d)) of
        None \<Rightarrow> Inl (SyntaxError, s)
      | Some vals \<Rightarrow>
          (case each_row d (matched_rows vals (shipment_rows s)) s of
             Inl x \<Rightarrow> Inl x
           | Inr s' \<Rightarrow> Inr (update_detail d s')))"

text \<open>
  \<^verbatim>\<open>TFSTWebSocket.handleShipmentUpdate(data)\<close>, with \<open>hooks\<close> the handlers registered for
  \<^verbatim>\<open>shipment:update\<close>.
\<close>

definition handleShipmentUpdate ::
  "(shipment_update \<Rightarrow> page \<Rightarrow> page js_result) list \<Rightarrow> shipment_update \<Rightarrow> page \<Rightarrow> page js_result"
where
  "handleShipmentUpdate hooks d s =
     (case trigger hooks d s of
        Inl x \<Rightarrow> Inl x
      | Inr s1 \<Rightarrow>
          (case updateShipmentDisplay d s1 of
             Inl x \<Rightarrow> Inl x
           | Inr s2 \<Rightarrow>
               Inr (WebSocket_showNotification
                      (''Shipment '' @ shipment_id d @ '' updated: '' @ js_string (current_status d))
                      ''info'' s2)))"


section \<open>Emergency alerts (\<^verbatim>\<open>websocket.js\<close>)\<close>









section \<open>The channel client (\<^verbatim>\<open>websocket.js\<close>)\<close>

datatype outbound =
    Subscribe_shipment string
  | Unsubscribe_shipment string
  | Request_shipment_status string
  | Ping

text \<open>
  The fields of \<^verbatim>\<open>TFSTWebSocket\<close>. The socket is \<^verbatim>\<open>null\<close> until \<^verbatim>\<open>connect()\<close> has run
  (which \<^verbatim>\<open>init()\<close> skips when the socket library is not loaded); a socket is given by the
  events it was asked to emit, in order. \<open>connectionStatus\<close> is what
  \<^verbatim>\<open>updateConnectionStatus\<close> last showed.
\<close>

record ws_client =
  socket :: "outbound list option"
  reconnectAttempts :: nat
  maxReconnectAttempts :: nat
  reconnectDelay :: nat
  connected :: bool
  connectionStatus :: string

definition TFSTWebSocket_constructor :: "bool \<Rightarrow> ws_client" where
  "TFSTWebSocket_constructor io_defined =
     \<lparr>socket = (if io_defined then Some [] else None),
      reconnectAttempts = 0, maxReconnectAttempts = 5, reconnectDelay = 1000,
      connected = False, connectionStatus = []\<rparr>"

definition on_connect :: "ws_client \<Rightarrow> ws_client" where
  "on_connect c = c\<lparr>connected := True, reconnectAttempts := 0, connectionStatus := ''connected''\<rparr>"

definition on_disconnect :: "ws_client \<Rightarrow> ws_client" where
  "on_disconnect c = c\<lparr>connected := False, connectionStatus := ''disconnected''\<rparr>"

text \<open>\<^verbatim>\<open>this.socket.emit(...)\<close>; on a \<^verbatim>\<open>null\<close> socket the property access raises.\<close>

definition emit :: "outbound \<Rightarrow> ws_client \<Rightarrow> ws_client js_result" where
  "emit m c =
     (case socket c of
        None \<Rightarrow> Inl (TypeError, c)
      | Some sent \<Rightarrow> Inr (c\<lparr>socket := Some (sent @ [m])\<rparr>))"

definition subscribeToShipment :: "string \<Rightarrow> ws_client \<Rightarrow> ws_client js_result" where
  "subscribeToShipment shipmentId c =
     (if connected c then emit (Subscribe_shipment shipmentId) c else Inr c)"

definition unsubscribeFromShipment :: "string \<Rightarrow> ws_client \<Rightarrow> ws_client js_result" where
  "unsubscribeFromShipment shipmentId c =
     (if connected c then emit (Unsubscribe_shipment shipmentId) c else Inr c)"

definition requestShipmentStatus :: "string \<Rightarrow> ws_client \<Rightarrow> ws_client js_result" where
  "requestShipmentStatus shipmentId c =
     (if connected c then emit (Request_shipment_status shipmentId) c else Inr c)"

definition ping :: "ws_client \<Rightarrow> ws_client js_result" where
  "ping c = (if connected c then emit Ping c else Inr c)"

text \<open>
  The callback of \<^verbatim>\<open>setInterval(..., 30000)\<close>: it pings when \<^verbatim>\<open>window.TFST_WebSocket\<close>
  is set. The period is in milliseconds, 30 seconds.
\<close>

definition ping_interval :: nat where
  "ping_interval = 30000"

definition keepalive_tick :: "ws_client option \<Rightarrow> ws_client option js_result" where
  "keepalive_tick w =
     (case w of
        None \<Rightarrow> Inr None
      | Some c \<Rightarrow> (case ping c of Inl (e, c') \<Rightarrow> Inl (e, Some c') | Inr c' \<Rightarrow> Inr (Some c')))"

text \<open>What a client can be asked to send, and a run of such requests.\<close>

datatype client_call =
    Call_subscribe string
  | Call_unsubscribe string
  | Call_request string
  | Call_ping

fun call :: "client_call \<Rightarrow> ws_client \<Rightarrow> ws_client js_result" where
  "call (Call_subscribe i) c = subscribeToShipment i c"
| "call (Call_unsubscribe i) c = unsubscribeFromShipment i c"
| "call (Call_request i) c = requestShipmentStatus i c"
| "call Call_ping c = ping c"

definition calls :: "client_call list \<Rightarrow> ws_client \<Rightarrow> ws_client" where
  "calls cs c = foldl (\<lambda>c' x. state_of (call x c')) c cs"


section \<open>Observations and example pages\<close>

text \<open>
  The status rendered for a shipment: the texts of the status badges in the rows of class
  \<^verbatim>\<open>shipment-row\<close> that carry its identifier.
\<close>

definition rendered_status :: "string \<Rightarrow> page \<Rightarrow> string list" where
  "rendered_status sid s =
     concat (map (\<lambda>r. map el_text (filter is_status_badge (row_elems r)))
               (filter (matches_row [sid]) (shipment_rows s)))"

text \<open>
  A change of the table that touches only the rows of one shipment: every row keeps its
  identifier, and a row with another identifier is the same before and after.
\<close>

definition touches_only :: "string \<Rightarrow> row list \<Rightarrow> row list \<Rightarrow> bool" where
  "touches_only sid rs rs' =
     list_all2 (\<lambda>r r'. data_shipment_id r' = data_shipment_id r \<and>
                        (data_shipment_id r \<noteq> sid \<longrightarrow> r' = r)) rs rs'"


text \<open>A page with an empty table and nothing appended to its body, at time 0.\<close>

definition empty_page :: page where
  "empty_page =
     \<lparr>selectedShipments = [], checkboxes = [], selectAll_checked = False,
      selectAll_indeterminate = False, selectedCount = 0, bulkActionsPanel_shown = False,
      statusUpdateModal_shown = False, shipment_rows = [], detail_visible = False,
      detail_shipment_id = [], currentStatus = [], lastUpdated = [], body = [],
      timers = [], now = 0, pending = [], reloads = 0\<rparr>"

text \<open>A table row as the shipment list renders it: one status badge showing \<open>st\<close>.\<close>

definition table_row :: "string \<Rightarrow> string \<Rightarrow> row" where
  "table_row sid st =
     \<lparr>row_classes = [''shipment-row''], data_shipment_id = sid,
      row_elems = [\<lparr>el_classes = addClass (status_badge_class st) [], el_text = st\<rparr>]\<rparr>"

definition unchecked_box :: "string \<Rightarrow> checkbox" where
  "unchecked_box v = \<lparr>cb_value = v, cb_checked = False\<rparr>"

definition checked_box :: "string \<Rightarrow> checkbox" where
  "checked_box v = \<lparr>cb_value = v, cb_checked = True\<rparr>"

text \<open>A page listing two shipments, the first being the one of the spec's scenario.\<close>

definition two_rows :: page where
  "two_rows =
     empty_page\<lparr>shipment_rows := [table_row ''SHP-1001'' ''Pending'', table_row ''SHP-1002'' ''Delivered''],
                checkboxes := [unchecked_box ''SHP-1001'', unchecked_box ''SHP-1002'']\<rparr>"




text \<open>
  An event whose identifier closes the quote and the bracket of the selector and opens the
  template again: \<^verbatim>\<open>SHP-1001"],.shipment-row[data-shipment-id="SHP-1002\<close>.
\<close>

definition crafted_update :: shipment_update where
  "crafted_update =
     \<lparr>shipment_id = ''SHP-1001'' @ [CHR 0x22] @ ''],.shipment-row[data-shipment-id='' @ [CHR 0x22]
                      @ ''SHP-1002'',
      current_status = Some ''In Transit''\<rparr>"

definition delivered_update :: status_update where
  "delivered_update =
     \<lparr>su_status = ''Delivered'', su_notes = [], su_location = None, su_driver_info = None\<rparr>"



text \<open>
  The selection of the spec's scenario, rows A, B and C checked, and the document a
  refresh then serves, rows B, C and D.
\<close>

definition selected_abc :: page where
  "selected_abc =
     empty_page\<lparr>selectedShipments := [''A'', ''B'', ''C''],
                checkboxes := [checked_box ''A'', checked_box ''B'', checked_box ''C''],
                selectAll_checked := True, selectedCount := 3, bulkActionsPanel_shown := True\<rparr>"

definition served_bcd :: page where
  "served_bcd = empty_page\<lparr>checkboxes := [unchecked_box ''B'', unchecked_box ''C'', unchecked_box ''D'']\<rparr>"

text \<open>A client that connected, pinged once and lost its connection.\<close>

definition dropped_client :: ws_client where
  "dropped_client = on_disconnect (state_of (ping (on_connect (TFSTWebSocket_constructor True))))"


section \<open>The selection across a refresh\<close>

text \<open>
  C2, as the code has it: a table refresh is a reload of the page, and the reloaded page
  starts with an empty selection, whatever was selected before and whatever is rendered
  after. The selection after a refresh is therefore a subset of the rendered identifiers,
  but it keeps no row: it is empty also when the refresh renders the very rows that were
  rendered before.
\<close>

theorem C2_refresh_clears_selection:
  "selectedShipments (refreshData served s) = [] \<and>
   rendered_ids (refreshData served s) = rendered_ids served \<and>
   set (selectedShipments (refreshData served s)) \<subseteq> rendered_ids (refreshData served s)"
  by (simp add: refreshData_def TFSTShipments_constructor_def rendered_ids_def)

text \<open>
  The scenario of the specification: rows A, B and C are selected and the refresh renders
  B, C and D. The selection afterwards is not \<open>{B, C}\<close>.
\<close>

theorem refresh_drops_surviving_rows:
  "set (selectedShipments selected_abc) = {''A'', ''B'', ''C''} \<and>
   rendered_ids (refreshData served_bcd selected_abc) = {''B'', ''C'', ''D''} \<and>
   set (selectedShipments (refreshData served_bcd selected_abc)) \<noteq> {''B'', ''C''}"
  by (simp add: refreshData_def TFSTShipments_constructor_def selected_abc_def served_bcd_def
      empty_page_def rendered_ids_def unchecked_box_def checked_box_def)

section \<open>Emergency alerts\<close>






section \<open>The select-all control\<close>



section \<open>Notifications and their timers\<close>

text \<open>
  Each notification is appended after those already shown, and its timer is due 5000 ms
  after its own creation; the timers set before are left as they are.
\<close>

lemma showNotification_schedule:
  "timers (showNotification m t s) = timers s @ [(now s + 5000, CloseLastAlert)] \<and>
   body (showNotification m t s) = body s @ [Alert (alertClass t) False m]"
  by (simp add: showNotification_def setTimeout_def)

lemma Dashboard_showNotification_schedule:
  "timers (Dashboard_showNotification m t s) = timers s @ [(now s + 5000, CloseLastAlert)] \<and>
   body (Dashboard_showNotification m t s) = body s @ [Alert (alertClass t) True m]"
  by (simp add: Dashboard_showNotification_def setTimeout_def)

text \<open>
  C7 at a concrete schedule: notification A is shown at time 0 and notification B at time
  1000. Their timers are due at 5000 and 6000. At time 5000 the timer created for A runs
  and closes the last alert of the page, which is B: A is still shown, and B is gone 4000
  ms after it was shown. Both scripts behave so.
\<close>

theorem C7_timer_closes_newest_alert:
  "body (showNotification ''B'' ''info'' (advance 1000 (showNotification ''A'' ''info'' empty_page)))
     = [Alert ''alert-info'' False ''A'', Alert ''alert-info'' False ''B''] \<and>
   timers (showNotification ''B'' ''info'' (advance 1000 (showNotification ''A'' ''info'' empty_page)))
     = [(5000, CloseLastAlert), (6000, CloseLastAlert)] \<and>
   body (advance 5000
           (showNotification ''B'' ''info'' (advance 1000 (showNotification ''A'' ''info'' empty_page))))
     = [Alert ''alert-info'' False ''A''] \<and>
   body (advance 5000
           (Dashboard_showNotification ''B'' ''info''
              (advance 1000 (Dashboard_showNotification ''A'' ''info'' empty_page))))
     = [Alert ''alert-info'' True ''A'']"
  by (simp add: advance_def showNotification_def Dashboard_showNotification_def setTimeout_def
      empty_page_def close_last_alert_def alertClass_def)

section \<open>The response to a status update\<close>

text \<open>The page is reloaded exactly when the response came with \<^verbatim>\<open>success\<close> set.\<close>

lemma refresh_iff_success:
  "k < length (pending s) \<Longrightarrow>
   reloads (ajax_complete k outcome served s) =
     (case outcome of
        HttpSuccess r \<Rightarrow> if success r then Suc (reloads s) else reloads s
      | HttpError rj \<Rightarrow> reloads s)"
  by (simp add: ajax_complete_def on_success_def on_error_def refreshData_def
      TFSTShipments_constructor_def showNotification_def setTimeout_def
      split: ajax_outcome.splits)

text \<open>
  C8 at a concrete response: the server answers a status update with \<^verbatim>\<open>{success: false}\<close>
  and no \<^verbatim>\<open>error\<close> field. The notification reads
  \<^verbatim>\<open>Failed to update status: undefined\<close>; the same response body under an HTTP error
  status gives the fallback \<^verbatim>\<open>Server error\<close>.
\<close>

theorem C8_failure_without_message:
  "body (ajax_complete 0 (HttpSuccess \<lparr>success = False, error = None\<rparr>) served
           (updateShipmentStatus ''SHP-1001'' delivered_update empty_page))
     = [Alert ''alert-danger'' False ''Failed to update status: undefined''] \<and>
   body (ajax_complete 0 (HttpError (Some \<lparr>success = False, error = None\<rparr>)) served
           (updateShipmentStatus ''SHP-1001'' delivered_update empty_page))
     = [Alert ''alert-danger'' False ''Update failed: Server error'']"
  by (simp add: ajax_complete_def on_success_def on_error_def updateShipmentStatus_def
      showNotification_def setTimeout_def empty_page_def alertClass_def)

section \<open>The disconnected channel\<close>

lemma call_disconnected: "\<not> connected c \<Longrightarrow> call x c = Inr c"
  by (cases x) (simp_all add: subscribeToShipment_def unsubscribeFromShipment_def
      requestShipmentStatus_def ping_def)

lemma calls_disconnected: "\<not> connected c \<Longrightarrow> calls xs c = c"
  by (induction xs) (simp_all add: calls_def call_disconnected)

lemma dropped_client_eq:
  "dropped_client =
     \<lparr>socket = Some [Ping], reconnectAttempts = 0, maxReconnectAttempts = 5,
      reconnectDelay = 1000, connected = False, connectionStatus = ''disconnected''\<rparr>"
  by (simp add: dropped_client_def on_disconnect_def on_connect_def
      TFSTWebSocket_constructor_def ping_def emit_def)

text \<open>
  C10: while the \<open>connected\<close> flag is false, subscribing, unsubscribing, requesting a
  status and pinging each return without emitting and leave the client as it is; so does
  the keep-alive tick that runs every 30 seconds, and so does every run of such calls: the
  socket is never asked to emit.
\<close>

theorem C10_disconnected_client_emits_nothing:
  assumes "\<not> connected c"
  shows "subscribeToShipment i c = Inr c \<and> unsubscribeFromShipment i c = Inr c \<and>
         requestShipmentStatus i c = Inr c \<and> ping c = Inr c \<and>
         keepalive_tick (Some c) = Inr (Some c) \<and> keepalive_tick None = Inr None \<and>
         calls xs c = c \<and> socket (calls xs c) = socket c \<and> ping_interval = 30 * 1000"
  using assms
  by (simp add: subscribeToShipment_def unsubscribeFromShipment_def requestShipmentStatus_def
      ping_def keepalive_tick_def calls_disconnected ping_interval_def)

theorem C10_disconnected_client_emits_nothing_witness:
  "\<not> connected dropped_client \<and> socket dropped_client = Some [Ping] \<and>
   subscribeToShipment ''SHP-1001'' dropped_client = Inr dropped_client \<and>
   unsubscribeFromShipment ''SHP-1001'' dropped_client = Inr dropped_client \<and>
   requestShipmentStatus ''SHP-1001'' dropped_client = Inr dropped_client \<and>
   ping dropped_client = Inr dropped_client \<and>
   keepalive_tick (Some dropped_client) = Inr (Some dropped_client) \<and>
   socket (calls [Call_ping, Call_subscribe ''SHP-1001'', Call_ping] dropped_client) = Some [Ping]"
proof -
  have h: "\<not> connected dropped_client"
    by (simp add: dropped_client_eq)
  show ?thesis
    using h C10_disconnected_client_emits_nothing
      [OF h, of "''SHP-1001''" "[Call_ping, Call_subscribe ''SHP-1001'', Call_ping]"]
    by (simp add: dropped_client_eq)
qed

section \<open>Rows, badges and class lists\<close>

lemma set_add_classes: "set (add_classes cs cur) = set cs \<union> set cur"
  by (induction cs arbitrary: cur) auto


lemma set_addClass: "set (addClass v cur) = set (class_tokens v) \<union> set cur"
  by (simp add: addClass_def set_add_classes)


lemma status_badge_in_tokens: "''status-badge'' \<in> set (class_tokens (status_badge_class st))"
  by (simp add: class_tokens_def status_badge_class_def html_space_def)

lemma update_badge_is_badge: "is_status_badge (update_badge st e)"
  by (simp add: is_status_badge_def update_badge_def badge_text_def badge_addClass_def
      set_addClass status_badge_in_tokens)


lemma update_badge_text: "el_text (update_badge st e) = st"
  by (simp add: update_badge_def badge_text_def badge_addClass_def badge_removeClass_def)


lemma table_warning_tokens: "class_tokens ''table-warning'' = [''table-warning'']"
  by (simp add: class_tokens_def html_space_def)

lemma table_info_tokens: "class_tokens ''table-info'' = [''table-info'']"
  by (simp add: class_tokens_def html_space_def)

lemma matches_row_addClass:
  "''shipment-row'' \<notin> set (class_tokens v) \<Longrightarrow>
   matches_row vs (row_addClass v r) = matches_row vs r"
  by (auto simp: matches_row_def row_addClass_def set_addClass)

lemma matches_on_status_badges: "matches_row vs (on_status_badges f r) = matches_row vs r"
  by (simp add: matches_row_def on_status_badges_def)






lemma badges_after_update:
  "map el_text (filter is_status_badge (row_elems (on_status_badges (update_badge st) r))) =
   map (\<lambda>_. st) (map el_text (filter is_status_badge (row_elems r)))"
  by (induction "row_elems r" arbitrary: r)
     (auto simp: on_status_badges_def update_badge_is_badge update_badge_text filter_map comp_def)

lemma badges_after_flash:
  "map el_text (filter is_status_badge (row_elems (row_addClass v (on_status_badges (update_badge st) r)))) =
   map (\<lambda>_. st) (map el_text (filter is_status_badge (row_elems r)))"
  using badges_after_update [of st r] by (simp add: row_addClass_def)

section \<open>Reading the selector\<close>

lemma scan_template:
  "scan (In_template selector_template) vs (selector_template @ rest) = scan (In_value []) vs rest"
  by (simp add: selector_template_def)

lemma scan_plain:
  "plain_id w \<Longrightarrow>
   scan (In_value v) vs (w @ CHR 0x22 # rest) = scan After_value (vs @ [v @ w]) rest"
  by (induction w arbitrary: v) (simp_all add: plain_id_def plain_char_def)

text \<open>The selector of an identifier without special characters asks for that identifier.\<close>

lemma read_plain: "plain_id sid \<Longrightarrow> read_selector (selector_for sid) = Some [sid]"
  by (simp add: read_selector_def selector_for_def scan_template scan_plain)



section \<open>The rows after an update event\<close>

lemma matched_rows_Nil: "matched_rows vs rs = [] \<longleftrightarrow> (\<forall>r \<in> set rs. \<not> matches_row vs r)"
proof
  assume "matched_rows vs rs = []"
  then have "\<forall>i < length rs. \<not> matches_row vs (rs ! i)"
    by (simp add: matched_rows_def filter_empty_conv)
  then show "\<forall>r \<in> set rs. \<not> matches_row vs r"
    by (auto simp: in_set_conv_nth)
next
  assume "\<forall>r \<in> set rs. \<not> matches_row vs r"
  then show "matched_rows vs rs = []"
    by (simp add: matched_rows_def filter_empty_conv)
qed

lemma matched_rows_mem: "i \<in> set (matched_rows vs rs) \<longleftrightarrow> i < length rs \<and> matches_row vs (rs ! i)"
  by (auto simp: matched_rows_def)

lemma matched_rows_distinct: "distinct (matched_rows vs rs)"
  by (simp add: matched_rows_def)

lemma map_no_match: "\<forall>r \<in> set rs. \<not> P r \<Longrightarrow> map (\<lambda>r. if P r then f r else r) rs = rs"
  by (induction rs) auto


text \<open>The rows after \<open>handleRealtimeUpdate\<close>, whether it returned or threw.\<close>

lemma hru_rows:
  assumes "read_selector (selector_for (shipment_id d)) = Some vs"
  shows "shipment_rows (state_of (handleRealtimeUpdate d s)) =
     map (\<lambda>r. if matches_row vs r
               then (case current_status d of
                       None \<Rightarrow> on_status_badges badge_removeClass r
                     | Some st \<Rightarrow> row_addClass ''table-warning'' (on_status_badges (update_badge st) r))
               else r)
       (shipment_rows s)"
proof (cases "matched_rows vs (shipment_rows s) = []")
  case True
  then have none: "\<forall>r \<in> set (shipment_rows s). \<not> matches_row vs r"
    by (simp add: matched_rows_Nil)
  have "map (\<lambda>r. if matches_row vs r
               then (case current_status d of
                       None \<Rightarrow> on_status_badges badge_removeClass r
                     | Some st \<Rightarrow> row_addClass ''table-warning'' (on_status_badges (update_badge st) r))
               else r)
       (shipment_rows s) = shipment_rows s"
    using none by (rule map_no_match)
  with True assms show ?thesis
    by (simp add: handleRealtimeUpdate_def Let_def showNotification_def setTimeout_def)
next
  case False
  with assms show ?thesis
    by (cases "current_status d")
       (simp_all add: handleRealtimeUpdate_def Let_def showNotification_def setTimeout_def on_rows_def)
qed



text \<open>The rows after the loop of \<open>updateShipmentDisplay\<close>.\<close>

lemma each_row_Some:
  "current_status d = Some st \<Longrightarrow>
   each_row d idxs s =
     Inr (s\<lparr>shipment_rows :=
              fold (\<lambda>i rs. rs[i := row_addClass ''table-info'' (on_status_badges (update_badge st) (rs ! i))])
                idxs (shipment_rows s),
            timers := timers s @ map (\<lambda>i. (now s + 2000, RemoveClassFromRows [i] ''table-info'')) idxs\<rparr>)"
proof (induction idxs arbitrary: s)
  case Nil
  then show ?case by simp
next
  case (Cons i idxs)
  then show ?case
    by (simp add: setTimeout_def update_row_at_def)
qed

lemma each_row_None:
  "current_status d = None \<Longrightarrow>
   each_row d idxs s =
     (case idxs of
        [] \<Rightarrow> Inr s
      | i # rest \<Rightarrow>
          Inl (TypeError, s\<lparr>shipment_rows :=
                 (shipment_rows s)[i := on_status_badges badge_removeClass (shipment_rows s ! i)]\<rparr>))"
  by (cases idxs) (simp_all add: update_row_at_def)

lemma fold_update_nth:
  "distinct idxs \<Longrightarrow>
   length (fold (\<lambda>i rs. rs[i := F (rs ! i)]) idxs rs) = length rs \<and>
   (\<forall>j < length rs. fold (\<lambda>i rs. rs[i := F (rs ! i)]) idxs rs ! j =
        (if j \<in> set idxs then F (rs ! j) else rs ! j))"
proof (induction idxs arbitrary: rs)
  case Nil
  then show ?case by simp
next
  case (Cons i idxs)
  then have d: "distinct idxs" and ni: "i \<notin> set idxs" by simp_all
  let ?u = "\<lambda>i rs. rs[i := F (rs ! i)]"
  let ?rs' = "rs[i := F (rs ! i)]"
  have len: "length (fold ?u idxs ?rs') = length rs"
    using Cons.IH [OF d, of ?rs'] by simp
  have nth: "\<And>j. j < length rs \<Longrightarrow>
               fold ?u idxs ?rs' ! j = (if j \<in> set idxs then F (?rs' ! j) else ?rs' ! j)"
    using Cons.IH [OF d, of ?rs'] by simp
  have "\<And>j. j < length rs \<Longrightarrow>
          fold ?u (i # idxs) rs ! j = (if j \<in> set (i # idxs) then F (rs ! j) else rs ! j)"
  proof -
    fix j
    assume j: "j < length rs"
    show "fold ?u (i # idxs) rs ! j = (if j \<in> set (i # idxs) then F (rs ! j) else rs ! j)"
    proof (cases "j = i")
      case True
      with ni j nth [OF j] show ?thesis by simp
    next
      case False
      with j nth [OF j] show ?thesis by simp
    qed
  qed
  with len show ?case by simp
qed

lemma fold_update_matched:
  "fold (\<lambda>i rs. rs[i := F (rs ! i)]) (matched_rows vs rs) rs =
   map (\<lambda>r. if matches_row vs r then F r else r) rs"
proof (rule nth_equalityI)
  show "length (fold (\<lambda>i rs. rs[i := F (rs ! i)]) (matched_rows vs rs) rs) =
        length (map (\<lambda>r. if matches_row vs r then F r else r) rs)"
    using fold_update_nth [OF matched_rows_distinct, of F vs rs rs] by simp
next
  fix j
  assume "j < length (fold (\<lambda>i rs. rs[i := F (rs ! i)]) (matched_rows vs rs) rs)"
  then have j: "j < length rs"
    using fold_update_nth [OF matched_rows_distinct, of F vs rs rs] by simp
  then show "fold (\<lambda>i rs. rs[i := F (rs ! i)]) (matched_rows vs rs) rs ! j =
             map (\<lambda>r. if matches_row vs r then F r else r) rs ! j"
    using fold_update_nth [OF matched_rows_distinct, of F vs rs rs]
    by (simp add: matched_rows_mem)
qed



lemma usd_rows:
  assumes "read_selector (selector_for (shipment_id d)) = Some vs"
  shows "shipment_rows (state_of (updateShipmentDisplay d s)) =
     (case current_status d of
        Some st \<Rightarrow>
          map (\<lambda>r. if matches_row vs r
                    then row_addClass ''table-info'' (on_status_badges (update_badge st) r) else r)
            (shipment_rows s)
      | None \<Rightarrow>
          (case matched_rows vs (shipment_rows s) of
             [] \<Rightarrow> shipment_rows s
           | i # rest \<Rightarrow>
               (shipment_rows s)[i := on_status_badges badge_removeClass (shipment_rows s ! i)]))"
proof (cases "current_status d")
  case None
  with assms show ?thesis
    by (simp add: updateShipmentDisplay_def each_row_None update_detail_def split: list.splits)
next
  case (Some st)
  with assms show ?thesis
    using fold_update_matched
      [of "\<lambda>r. row_addClass ''table-info'' (on_status_badges (update_badge st) r)"
          vs "shipment_rows s"]
    by (simp add: updateShipmentDisplay_def each_row_Some update_detail_def)
qed


text \<open>The rows after \<open>handleShipmentUpdate\<close>: those of \<open>updateShipmentDisplay\<close> on the page the hooks left.\<close>

lemma hsu_rows:
  "shipment_rows (state_of (handleShipmentUpdate hooks d s)) =
     (case trigger hooks d s of
        Inl x \<Rightarrow> shipment_rows (state_of (trigger hooks d s))
      | Inr s1 \<Rightarrow> shipment_rows (state_of (updateShipmentDisplay d s1)))"
  by (simp add: handleShipmentUpdate_def WebSocket_showNotification_def split: sum.splits)

lemma hsu_no_hooks_rows:
  "shipment_rows (state_of (handleShipmentUpdate [] d s)) =
   shipment_rows (state_of (updateShipmentDisplay d s))"
  by (simp add: hsu_rows)

lemma touches_only_refl: "touches_only sid rs rs"
  by (simp add: touches_only_def list_all2_same)

lemma touches_only_map:
  assumes "\<And>r. data_shipment_id (g r) = data_shipment_id r"
  shows "touches_only sid rs (map (\<lambda>r. if matches_row [sid] r then g r else r) rs)"
  using assms by (simp add: touches_only_def list_all2_map2 list_all2_same matches_row_def)

lemma touches_only_update:
  assumes "data_shipment_id (g (rs ! i)) = data_shipment_id (rs ! i)"
      and "matches_row [sid] (rs ! i)" and "i < length rs"
  shows "touches_only sid rs (rs[i := g (rs ! i)])"
  using assms
  by (auto simp: touches_only_def list_all2_conv_all_nth nth_list_update matches_row_def)

lemma id_on_status_badges: "data_shipment_id (on_status_badges f r) = data_shipment_id r"
  by (simp add: on_status_badges_def)

lemma id_flash: "data_shipment_id (row_addClass v (on_status_badges f r)) = data_shipment_id r"
  by (simp add: on_status_badges_def row_addClass_def)

text \<open>
  An event whose identifier has no special character touches only the rows of that
  identifier.
\<close>

lemma hru_touches_only:
  assumes "plain_id (shipment_id d)"
  shows "touches_only (shipment_id d) (shipment_rows s)
           (shipment_rows (state_of (handleRealtimeUpdate d s)))"
proof -
  have "\<And>r. data_shipment_id (case current_status d of
                       None \<Rightarrow> on_status_badges badge_removeClass r
                     | Some st \<Rightarrow> row_addClass ''table-warning'' (on_status_badges (update_badge st) r))
            = data_shipment_id r"
    by (cases "current_status d") (simp_all add: id_on_status_badges id_flash)
  then show ?thesis
    unfolding hru_rows [OF read_plain [OF assms]] by (rule touches_only_map)
qed

lemma usd_touches_only:
  assumes "plain_id (shipment_id d)"
  shows "touches_only (shipment_id d) (shipment_rows s)
           (shipment_rows (state_of (updateShipmentDisplay d s)))"
proof (cases "current_status d")
  case (Some st)
  have "touches_only (shipment_id d) (shipment_rows s)
          (map (\<lambda>r. if matches_row [shipment_id d] r
                    then row_addClass ''table-info'' (on_status_badges (update_badge st) r) else r)
            (shipment_rows s))"
    by (rule touches_only_map) (rule id_flash)
  with Some show ?thesis by (simp add: usd_rows [OF read_plain [OF assms]])
next
  case None
  show ?thesis
  proof (cases "matched_rows [shipment_id d] (shipment_rows s)")
    case Nil
    with None show ?thesis by (simp add: usd_rows [OF read_plain [OF assms]] touches_only_refl)
  next
    case (Cons i rest)
    then have "i \<in> set (matched_rows [shipment_id d] (shipment_rows s))" by simp
    then have "matches_row [shipment_id d] (shipment_rows s ! i)" and "i < length (shipment_rows s)"
      by (simp_all add: matched_rows_mem)
    then have "touches_only (shipment_id d) (shipment_rows s)
                 ((shipment_rows s)[i := on_status_badges badge_removeClass (shipment_rows s ! i)])"
      by (intro touches_only_update) (simp_all add: id_on_status_badges)
    with None Cons show ?thesis by (simp add: usd_rows [OF read_plain [OF assms]])
  qed
qed

section \<open>The status rendered after an update event\<close>

lemma filter_other_shipment:
  assumes "touches_only sid rs rs'" and "sid' \<noteq> sid"
  shows "filter (matches_row [sid']) rs' = filter (matches_row [sid']) rs"
  using assms unfolding touches_only_def
  by (induction rs rs' rule: list_all2_induct) (auto simp: matches_row_def)

lemma rendered_status_other:
  assumes "touches_only sid (shipment_rows s) (shipment_rows s')" and "sid' \<noteq> sid"
  shows "rendered_status sid' s' = rendered_status sid' s"
  using filter_other_shipment [OF assms] by (simp add: rendered_status_def)

lemma rendered_status_rows:
  "shipment_rows s' = shipment_rows s \<Longrightarrow> rendered_status sid s' = rendered_status sid s"
  by (simp add: rendered_status_def)

text \<open>
  When the rows selected are rewritten and the selector asks for \<open>sid\<close> among others, the
  status badges of \<open>sid\<close> all show the new status.
\<close>

lemma rendered_status_applied:
  assumes "shipment_rows s' =
             map (\<lambda>r. if matches_row vs r
                       then row_addClass v (on_status_badges (update_badge st) r) else r)
               (shipment_rows s)"
      and "''shipment-row'' \<notin> set (class_tokens v)"
      and "sid \<in> set vs"
  shows "rendered_status sid s' = map (\<lambda>_. st) (rendered_status sid s)"
proof -
  let ?g = "\<lambda>r. if matches_row vs r
                  then row_addClass v (on_status_badges (update_badge st) r) else r"
  have keep: "\<And>r. matches_row [sid] (?g r) = matches_row [sid] r"
    using assms(2) by (simp add: matches_row_addClass matches_on_status_badges)
  have sel: "\<And>r. matches_row [sid] r \<Longrightarrow> matches_row vs r"
    using assms(3) by (simp add: matches_row_def)
  have "filter (matches_row [sid]) (map ?g (shipment_rows s)) =
        map ?g (filter (matches_row [sid]) (shipment_rows s))"
    using keep by (simp add: filter_map comp_def)
  also have "\<dots> = map (\<lambda>r. row_addClass v (on_status_badges (update_badge st) r))
                     (filter (matches_row [sid]) (shipment_rows s))"
    by (rule map_cong) (simp_all add: sel)
  finally have "rendered_status sid s' =
      concat (map (\<lambda>r. map el_text (filter is_status_badge
                         (row_elems (row_addClass v (on_status_badges (update_badge st) r)))))
                (filter (matches_row [sid]) (shipment_rows s)))"
    by (simp add: rendered_status_def assms(1) comp_def)
  also have "\<dots> = concat (map (\<lambda>r. map (\<lambda>_. st) (map el_text (filter is_status_badge (row_elems r))))
                (filter (matches_row [sid]) (shipment_rows s)))"
    by (simp only: badges_after_flash)
  also have "\<dots> = map (\<lambda>_. st) (rendered_status sid s)"
    by (simp add: rendered_status_def map_concat comp_def)
  finally show ?thesis .
qed

lemma hru_applied:
  "plain_id (shipment_id d) \<Longrightarrow> current_status d = Some st \<Longrightarrow>
   rendered_status (shipment_id d) (state_of (handleRealtimeUpdate d s)) =
   map (\<lambda>_. st) (rendered_status (shipment_id d) s)"
  by (rule rendered_status_applied [where v = "''table-warning''" and vs = "[shipment_id d]"])
     (simp_all add: hru_rows [OF read_plain] table_warning_tokens)

lemma usd_applied:
  "plain_id (shipment_id d) \<Longrightarrow> current_status d = Some st \<Longrightarrow>
   rendered_status (shipment_id d) (state_of (updateShipmentDisplay d s)) =
   map (\<lambda>_. st) (rendered_status (shipment_id d) s)"
  by (rule rendered_status_applied [where v = "''table-info''" and vs = "[shipment_id d]"])
     (simp_all add: usd_rows [OF read_plain] table_info_tokens)



text \<open>
  For an event whose identifier has no double quote, backslash or line break, the frame
  holds: both handlers touch only the rows of that identifier, the status rendered for
  every other shipment stays, and the status rendered for the event's shipment becomes the
  event's status.
\<close>

lemma plain_update_touches_only_its_rows:
  assumes "plain_id (shipment_id d)"
  shows "touches_only (shipment_id d) (shipment_rows s)
           (shipment_rows (state_of (handleRealtimeUpdate d s))) \<and>
         touches_only (shipment_id d) (shipment_rows s)
           (shipment_rows (state_of (updateShipmentDisplay d s))) \<and>
         (sid \<noteq> shipment_id d \<longrightarrow>
            rendered_status sid (state_of (handleRealtimeUpdate d s)) = rendered_status sid s \<and>
            rendered_status sid (state_of (updateShipmentDisplay d s)) = rendered_status sid s) \<and>
         (current_status d = Some st \<longrightarrow>
            rendered_status (shipment_id d) (state_of (handleRealtimeUpdate d s)) =
              map (\<lambda>_. st) (rendered_status (shipment_id d) s) \<and>
            rendered_status (shipment_id d) (state_of (updateShipmentDisplay d s)) =
              map (\<lambda>_. st) (rendered_status (shipment_id d) s))"
  using hru_touches_only [OF assms, of s] usd_touches_only [OF assms, of s] assms
  by (simp add: hru_applied usd_applied rendered_status_other)

lemma table_row_status:
  "map el_text (filter is_status_badge (row_elems (table_row sid st))) = [st]"
  by (simp add: table_row_def is_status_badge_def set_addClass status_badge_in_tokens)

lemma table_row_matches: "matches_row vs (table_row sid st) \<longleftrightarrow> sid \<in> set vs"
  by (auto simp: table_row_def matches_row_def)

lemma two_rows_status:
  "rendered_status ''SHP-1001'' two_rows = [''Pending''] \<and>
   rendered_status ''SHP-1002'' two_rows = [''Delivered'']"
  by (simp add: rendered_status_def two_rows_def empty_page_def table_row_matches table_row_status)

lemma read_crafted:
  "read_selector (selector_for (shipment_id crafted_update)) = Some [''SHP-1001'', ''SHP-1002'']"
  by (simp add: crafted_update_def read_selector_def selector_for_def selector_template_def
      line_break_def)

text \<open>
  C9 at a crafted identifier: the table shows SHP-1001 as Pending and SHP-1002 as
  Delivered, and the event carries the identifier
  \<^verbatim>\<open>SHP-1001"],.shipment-row[data-shipment-id="SHP-1002\<close> with the status
  \<^verbatim>\<open>In Transit\<close>. No row has the event's identifier. The selector reads as a list of two
  selectors, and both handlers rewrite the rows of both shipments.
\<close>

theorem C9_crafted_id_rewrites_other_rows:
  "map data_shipment_id (shipment_rows two_rows) = [''SHP-1001'', ''SHP-1002''] \<and>
   shipment_id crafted_update \<noteq> ''SHP-1001'' \<and> shipment_id crafted_update \<noteq> ''SHP-1002'' \<and>
   rendered_status ''SHP-1001'' two_rows = [''Pending''] \<and>
   rendered_status ''SHP-1002'' two_rows = [''Delivered''] \<and>
   rendered_status ''SHP-1001'' (state_of (handleRealtimeUpdate crafted_update two_rows))
     = [''In Transit''] \<and>
   rendered_status ''SHP-1002'' (state_of (handleRealtimeUpdate crafted_update two_rows))
     = [''In Transit''] \<and>
   rendered_status ''SHP-1001'' (state_of (updateShipmentDisplay crafted_update two_rows))
     = [''In Transit''] \<and>
   rendered_status ''SHP-1002'' (state_of (updateShipmentDisplay crafted_update two_rows))
     = [''In Transit'']"
proof -
  have st: "current_status crafted_update = Some ''In Transit''"
    by (simp add: crafted_update_def)
  have ids: "map data_shipment_id (shipment_rows two_rows) = [''SHP-1001'', ''SHP-1002'']"
    by (simp add: two_rows_def empty_page_def table_row_def)
  have ne: "shipment_id crafted_update \<noteq> ''SHP-1001'' \<and> shipment_id crafted_update \<noteq> ''SHP-1002''"
    by (simp add: crafted_update_def)
  have hru: "\<And>sid. sid \<in> set [''SHP-1001'', ''SHP-1002''] \<Longrightarrow>
      rendered_status sid (state_of (handleRealtimeUpdate crafted_update two_rows)) =
      map (\<lambda>_. ''In Transit'') (rendered_status sid two_rows)"
    by (rule rendered_status_applied
          [where v = "''table-warning''" and vs = "[''SHP-1001'', ''SHP-1002'']"])
       (simp_all add: hru_rows [OF read_crafted] st table_warning_tokens)
  have usd: "\<And>sid. sid \<in> set [''SHP-1001'', ''SHP-1002''] \<Longrightarrow>
      rendered_status sid (state_of (updateShipmentDisplay crafted_update two_rows)) =
      map (\<lambda>_. ''In Transit'') (rendered_status sid two_rows)"
    by (rule rendered_status_applied
          [where v = "''table-info''" and vs = "[''SHP-1001'', ''SHP-1002'']"])
       (simp_all add: usd_rows [OF read_crafted] st table_info_tokens)
  show ?thesis
    using hru [of "''SHP-1001''"] hru [of "''SHP-1002''"] usd [of "''SHP-1001''"]
      usd [of "''SHP-1002''"] ids ne
    by (simp add: two_rows_status)
qed

section \<open>Remote events during a local submission\<close>





section \<open>Applying an event twice\<close>
















section \<open>A failing event and the events after it\<close>





















end
